theory Spec2Isabelle
  imports Main "HOL-Library.Multiset" "HOL-Library.Char_ord" "HOL-Library.List_Lexorder"
begin

section \<open>The data model of the health tracker (src/index.tsx, types)\<close>

text \<open>
  A JavaScript object used as a dictionary (\<^verbatim>\<open>Record<string, V>\<close>) is modelled by the list of
  its entries, in the order \<^verbatim>\<open>Object.entries\<close> enumerates them. A well-formed object has
  no key twice. Reading a property is \<open>obj_get\<close>; the assignment \<^verbatim>\<open>o[k] = v\<close> (and the spread
  \<^verbatim>\<open>{...o, [k]: v}\<close>) is \<open>obj_set\<close>: an existing key keeps its place, a new key goes last.
  Property names are ordinary ones (dates, time labels): integer-like keys, which JavaScript
  enumerates first, and the accessor \<^verbatim>\<open>__proto__\<close> are outside the model. Strings are
  compared by code unit, as \<^verbatim>\<open>Array.prototype.sort\<close> without a comparator does.
\<close>

type_synonym 'v obj = "(string \<times> 'v) list"

definition obj_get :: "'v obj \<Rightarrow> string \<Rightarrow> 'v option" where
  "obj_get ob k = map_of ob k"

fun obj_set :: "'v obj \<Rightarrow> string \<Rightarrow> 'v \<Rightarrow> 'v obj" where
  "obj_set [] k v = [(k, v)]"
| "obj_set ((k', v') # ob) k v = (if k' = k then (k, v) # ob else (k', v') # obj_set ob k v)"

definition obj_keys :: "'v obj \<Rightarrow> string list" where
  "obj_keys ob = map fst ob"

definition obj_values :: "'v obj \<Rightarrow> 'v list" where
  "obj_values ob = map snd ob"

definition wf_obj :: "'v obj \<Rightarrow> bool" where
  "wf_obj ob = distinct (obj_keys ob)"

text \<open>\<^verbatim>\<open>interface TimeSlotData { value: number | null; medications: string[]; comments: string }\<close>\<close>

record TimeSlotData =
  slot_value :: "int option"
  slot_medications :: "string list"
  slot_comments :: string

type_synonym DailyData = "TimeSlotData obj"
type_synonym HealthData = "DailyData obj"
type_synonym StandardPattern = "string list obj"

section \<open>The time-slot labels\<close>

text \<open>
  \<^verbatim>\<open>h.toString()\<close> for a non-negative integer, and \<^verbatim>\<open>padStart(n, pad)\<close>.
\<close>

definition digit :: "nat \<Rightarrow> char" where
  "digit d = ''0123456789'' ! d"

fun toString :: "nat \<Rightarrow> string" where
  "toString n = (if n < 10 then [digit n] else toString (n div 10) @ [digit (n mod 10)])"

definition padStart :: "nat \<Rightarrow> string \<Rightarrow> string \<Rightarrow> string" where
  "padStart n pad s =
     (if n \<le> length s \<or> pad = [] then s
      else take (n - length s) (concat (replicate (n - length s) pad)) @ s)"

text \<open>
  \<^verbatim>\<open>for (let h = 8; h < 24; h++) { push(hh + ":00"); if (h < 23) push(hh + ":30"); }\<close>
\<close>

function TIME_SLOTS_loop :: "nat \<Rightarrow> string list \<Rightarrow> string list" where
  "TIME_SLOTS_loop h slots =
     (if h < 24 then
        (let slots1 = slots @ [padStart 2 ''0'' (toString h) @ '':00''];
             slots2 = (if h < 23 then slots1 @ [padStart 2 ''0'' (toString h) @ '':30''] else slots1)
         in TIME_SLOTS_loop (h + 1) slots2)
      else slots)"
  by pat_completeness auto
termination
  by (relation "measure (\<lambda>(h, slots). 24 - h)") auto

definition TIME_SLOTS :: "string list" where
  "TIME_SLOTS = TIME_SLOTS_loop 8 []"

text \<open>
  The spec's words, "fixed half-hour steps" from 08:00: the label of the \<open>i\<close>-th half hour
  after 08:00.
\<close>

definition half_hour_label :: "nat \<Rightarrow> string" where
  "half_hour_label i =
     padStart 2 ''0'' (toString ((480 + 30 * i) div 60)) @ '':'' @
     padStart 2 ''0'' (toString ((480 + 30 * i) mod 60))"

section \<open>The application data store (AppProvider)\<close>

text \<open>
  The state held by \<^verbatim>\<open>AppProvider\<close>: the three \<^verbatim>\<open>useState\<close> cells of the bundle and the
  authentication flag, together with the part of the browser the store talks to: the
  clock (milliseconds) and the timeout that \<^verbatim>\<open>saveDataTimeout.current\<close> designates, kept as
  its deadline (\<open>None\<close> when no timeout is pending). Every operation runs in a render whose
  closure holds the current state, and \<^verbatim>\<open>dataRef.current\<close> mirrors it. The record is
  polymorphic in the three cells because \<^verbatim>\<open>loadUserDataBundle\<close> stores whatever
  \<^verbatim>\<open>JSON.parse\<close> produced; the typed operations work on \<open>app_store\<close>. The transient
  \<^verbatim>\<open>isSaving\<close>, \<^verbatim>\<open>isLoading\<close> and \<^verbatim>\<open>isDataLoading\<close> flags are not modelled.
\<close>

record ('h, 'm, 'p) store =
  healthData :: 'h
  medications :: 'm
  standardPattern :: 'p
  isAuthenticated :: bool
  clock :: nat
  saveDataTimeout :: "nat option"

type_synonym app_store = "(HealthData, string list, StandardPattern) store"

record UserDataBundle =
  bundle_healthData :: HealthData
  bundle_medications :: "string list"
  bundle_standardPattern :: StandardPattern

definition defaultHealthData :: HealthData where
  "defaultHealthData = []"

definition defaultMedications :: "string list" where
  "defaultMedications = [''Medicina A'', ''Medicina B'']"

definition defaultStandardPattern :: StandardPattern where
  "defaultStandardPattern = []"

definition defaultUserDataBundle :: UserDataBundle where
  "defaultUserDataBundle =
     \<lparr>bundle_healthData = defaultHealthData, bundle_medications = defaultMedications,
      bundle_standardPattern = defaultStandardPattern\<rparr>"

text \<open>
  The store as \<^verbatim>\<open>AppProvider\<close> first renders it; \<open>auth\<close> is what local storage holds under
  \<^verbatim>\<open>health_app_auth\<close> (\<^verbatim>\<open>false\<close> when absent).
\<close>

definition initial_store :: "bool \<Rightarrow> app_store" where
  "initial_store auth =
     \<lparr>healthData = defaultHealthData, medications = defaultMedications,
      standardPattern = defaultStandardPattern, isAuthenticated = auth, clock = 0,
      saveDataTimeout = None\<rparr>"

text \<open>
  \<^verbatim>\<open>saveDataToJsonbin\<close>: clear the pending timeout, if any, and set one 2000 ms from now.
\<close>

definition saveDataToJsonbin :: "('h, 'm, 'p) store \<Rightarrow> ('h, 'm, 'p) store" where
  "saveDataToJsonbin s = s\<lparr>saveDataTimeout := Some (clock s + 2000)\<rparr>"

definition dataBundle :: "app_store \<Rightarrow> UserDataBundle" where
  "dataBundle s =
     \<lparr>bundle_healthData = healthData s, bundle_medications = medications s,
      bundle_standardPattern = standardPattern s\<rparr>"

definition logout :: "app_store \<Rightarrow> app_store" where
  "logout s =
     s\<lparr>isAuthenticated := False, healthData := defaultHealthData,
       medications := defaultMedications, standardPattern := defaultStandardPattern\<rparr>"

definition updateHealthData :: "string \<Rightarrow> DailyData \<Rightarrow> app_store \<Rightarrow> app_store" where
  "updateHealthData date data s =
     saveDataToJsonbin (s\<lparr>healthData := obj_set (healthData s) date data\<rparr>)"

definition addMedication :: "string \<Rightarrow> app_store \<Rightarrow> app_store" where
  "addMedication med s =
     (if med \<notin> set (medications s)
      then saveDataToJsonbin (s\<lparr>medications := sort (medications s @ [med])\<rparr>)
      else s)"

text \<open>
  \<^verbatim>\<open>Object.entries(o).reduce((acc, [k, v]) => { acc[k] = f(v); return acc; }, {})\<close>, the
  shape of every rewrite of the archive and of the pattern.
\<close>

definition obj_rebuild :: "('v \<Rightarrow> 'w) \<Rightarrow> 'v obj \<Rightarrow> 'w obj" where
  "obj_rebuild f ob = foldl (\<lambda>acc (k, v). obj_set acc k (f v)) [] ob"

definition rename :: "string \<Rightarrow> string \<Rightarrow> string \<Rightarrow> string" where
  "rename oldMed newMed m = (if m = oldMed then newMed else m)"

definition editMedication :: "string \<Rightarrow> string \<Rightarrow> app_store \<Rightarrow> app_store" where
  "editMedication oldMed newMed s =
     saveDataToJsonbin
       (s\<lparr>healthData :=
            obj_rebuild
              (obj_rebuild
                 (\<lambda>slot. slot\<lparr>slot_medications := map (rename oldMed newMed) (slot_medications slot)\<rparr>))
              (healthData s),
          standardPattern := obj_rebuild (map (rename oldMed newMed)) (standardPattern s),
          medications := sort (map (rename oldMed newMed) (medications s))\<rparr>)"

text \<open>
  The callback of the \<^verbatim>\<open>reduce\<close> over the pattern in \<^verbatim>\<open>deleteMedication\<close>:
  \<^verbatim>\<open>const filtered = meds.filter(m => m !== medToDelete);
  if (filtered.length > 0) acc[time] = filtered; return acc;\<close>
\<close>

definition deleteMedication_pattern ::
  "string \<Rightarrow> StandardPattern \<Rightarrow> string \<times> string list \<Rightarrow> StandardPattern" where
  "deleteMedication_pattern medToDelete acc entry =
     (case entry of
        (time, meds) \<Rightarrow>
          let filtered = filter (\<lambda>m. m \<noteq> medToDelete) meds
          in if length filtered > 0 then obj_set acc time filtered else acc)"

definition deleteMedication :: "string \<Rightarrow> app_store \<Rightarrow> app_store" where
  "deleteMedication medToDelete s =
     saveDataToJsonbin
       (s\<lparr>healthData :=
            obj_rebuild
              (obj_rebuild
                 (\<lambda>slot. slot\<lparr>slot_medications := filter (\<lambda>m. m \<noteq> medToDelete) (slot_medications slot)\<rparr>))
              (healthData s),
          standardPattern :=
            foldl (deleteMedication_pattern medToDelete) [] (standardPattern s),
          medications := filter (\<lambda>m. m \<noteq> medToDelete) (medications s)\<rparr>)"

definition updateStandardPattern :: "StandardPattern \<Rightarrow> app_store \<Rightarrow> app_store" where
  "updateStandardPattern pattern s = saveDataToJsonbin (s\<lparr>standardPattern := pattern\<rparr>)"

subsection \<open>Importing a bundle\<close>

text \<open>
  \<^verbatim>\<open>handleFileChange\<close> hands the result of \<^verbatim>\<open>JSON.parse\<close> to \<^verbatim>\<open>loadUserDataBundle\<close>
  unchecked, so the argument is any JSON value. Of a number only whether it is zero is
  observed. \<open>js_prop\<close> reads a property; \<open>None\<close> is \<^verbatim>\<open>undefined\<close>, which is what the three
  names read here give on a value that is not an object.
\<close>

datatype json =
  JNull
| JBool bool
| JNumber int
| JString string
| JArray "json list"
| JObject "(string \<times> json) list"

datatype error = Error string

fun truthy :: "json \<Rightarrow> bool" where
  "truthy JNull = False"
| "truthy (JBool b) = b"
| "truthy (JNumber n) = (n \<noteq> 0)"
| "truthy (JString s) = (s \<noteq> [])"
| "truthy (JArray xs) = True"
| "truthy (JObject ob) = True"

fun js_prop :: "json \<Rightarrow> string \<Rightarrow> json option" where
  "js_prop (JObject ob) k = map_of ob k"
| "js_prop j k = None"

text \<open>
  The accepting branch: the three \<^verbatim>\<open>set...\<close> calls and \<^verbatim>\<open>saveDataToJsonbin()\<close>.
\<close>

definition install :: "'h \<Rightarrow> 'm \<Rightarrow> 'p \<Rightarrow> ('h0, 'm0, 'p0) store \<Rightarrow> ('h, 'm, 'p) store" where
  "install h m p s =
     saveDataToJsonbin
       \<lparr>healthData = h, medications = m, standardPattern = p,
        isAuthenticated = isAuthenticated s, clock = clock s,
        saveDataTimeout = saveDataTimeout s\<rparr>"

text \<open>
  \<^verbatim>\<open>if (bundle && bundle.healthData && bundle.medications && bundle.standardPattern)\<close>.
  A throw leaves the store as it was: the error comes with the unchanged store.
\<close>

definition loadUserDataBundle ::
  "json \<Rightarrow> ('h, 'm, 'p) store \<Rightarrow> (error \<times> ('h, 'm, 'p) store) + (json, json, json) store" where
  "loadUserDataBundle bundle s =
     (case (js_prop bundle ''healthData'', js_prop bundle ''medications'',
            js_prop bundle ''standardPattern'') of
        (Some h, Some m, Some p) \<Rightarrow>
          if truthy bundle \<and> truthy h \<and> truthy m \<and> truthy p
          then Inr (install h m p s)
          else Inl (Error ''Invalid data structure in JSON file.'', s)
      | _ \<Rightarrow> Inl (Error ''Invalid data structure in JSON file.'', s))"

subsection \<open>The debounced save\<close>

text \<open>
  The calls a component can make on the store. \<open>LoadUserDataBundle\<close> is the import of a
  bundle of the declared type, whose three fields are objects and arrays and so pass the
  check of \<^verbatim>\<open>loadUserDataBundle\<close>.
\<close>

datatype mutation =
  UpdateHealthData string DailyData
| AddMedication string
| EditMedication string string
| DeleteMedication string
| UpdateStandardPattern StandardPattern
| LoadUserDataBundle UserDataBundle

fun mutate :: "mutation \<Rightarrow> app_store \<Rightarrow> app_store" where
  "mutate (UpdateHealthData date data) s = updateHealthData date data s"
| "mutate (AddMedication med) s = addMedication med s"
| "mutate (EditMedication oldMed newMed) s = editMedication oldMed newMed s"
| "mutate (DeleteMedication med) s = deleteMedication med s"
| "mutate (UpdateStandardPattern pattern) s = updateStandardPattern pattern s"
| "mutate (LoadUserDataBundle b) s =
     install (bundle_healthData b) (bundle_medications b) (bundle_standardPattern b) s"

text \<open>
  What happens in the browser, in order: \<open>Call t m\<close> is a call of the store made at time
  \<open>t\<close>; \<open>Tick t\<close> is a turn of the event loop at time \<open>t\<close>, which runs the callback of the
  pending timeout when its deadline has passed. The callback returns at once when the store
  is not authenticated; otherwise it sends one PUT with the bundle the store holds then.
  A run gives the final store and the PUT requests sent, each with its time.
\<close>

datatype event = Call nat mutation | Tick nat

type_synonym put = "nat \<times> UserDataBundle"

fun step :: "event \<Rightarrow> app_store \<Rightarrow> app_store \<times> put list" where
  "step (Call t m) s = (mutate m (s\<lparr>clock := t\<rparr>), [])"
| "step (Tick t) s =
     (case saveDataTimeout s of
        None \<Rightarrow> (s\<lparr>clock := t\<rparr>, [])
      | Some deadline \<Rightarrow>
          if deadline \<le> t
          then (s\<lparr>clock := t, saveDataTimeout := None\<rparr>,
                if isAuthenticated s then [(t, dataBundle s)] else [])
          else (s\<lparr>clock := t\<rparr>, []))"


text \<open>
  The calls that reach \<^verbatim>\<open>saveDataToJsonbin()\<close>: all but \<^verbatim>\<open>addMedication\<close> of a name the
  catalog already holds.
\<close>

fun schedules_save :: "mutation \<Rightarrow> app_store \<Rightarrow> bool" where
  "schedules_save (AddMedication med) s = (med \<notin> set (medications s))"
| "schedules_save m s = True"

text \<open>
  The stores reached from a first render by calls, turns of the event loop and logging out.
  Logging in, which loads the remote bundle, is not modelled: a first render may find the
  store authenticated.
\<close>

inductive reachable :: "app_store \<Rightarrow> bool" where
  reachable_initial: "reachable (initial_store auth)"
| reachable_step: "reachable s \<Longrightarrow> reachable (fst (step e s))"
| reachable_logout: "reachable s \<Longrightarrow> reachable (logout s)"

subsection \<open>The remote document client\<close>

text \<open>
  \<^verbatim>\<open>loadDataFromBin\<close>. The answer of \<^verbatim>\<open>fetch\<close> is a parameter: \<open>Inl\<close> when the promise
  rejects (transport failure), else the response, with \<^verbatim>\<open>response.ok\<close> standing for a
  status from 200 to 299. \<^verbatim>\<open>JSON.parse\<close> is a parameter too. \<open>loadDataFromBin_try\<close> is the
  body of the \<^verbatim>\<open>try\<close> block, \<open>loadDataFromBin\<close> the function with its \<^verbatim>\<open>catch\<close>; it gives
  the outcome of the promise and what went to the console as an error. The copy of the
  function in the service module (\<^verbatim>\<open>loadData\<close>) differs in its messages and in an
  informational \<^verbatim>\<open>console.log\<close> on status 404, not in what it returns.
\<close>

record response =
  status :: nat
  statusText :: string
  response_text :: "error + string"

definition response_ok :: "response \<Rightarrow> bool" where
  "response_ok r = (200 \<le> status r \<and> status r \<le> 299)"

datatype log_entry = ConsoleError string error

definition loadDataFromBin_try ::
  "(string \<Rightarrow> error + 'b) \<Rightarrow> error + response \<Rightarrow> 'b \<Rightarrow> error + 'b" where
  "loadDataFromBin_try parse fetched defaultData =
     (case fetched of
        Inl e \<Rightarrow> Inl e
      | Inr r \<Rightarrow>
          if \<not> response_ok r then
            (if status r = 404 then Inr defaultData
             else Inl (Error (''Failed to load: '' @ statusText r)))
          else
            (case response_text r of
               Inl e \<Rightarrow> Inl e
             | Inr responseText \<Rightarrow>
                 if responseText \<noteq> [] then parse responseText else Inr defaultData))"

definition loadDataFromBin ::
  "(string \<Rightarrow> error + 'b) \<Rightarrow> error + response \<Rightarrow> 'b \<Rightarrow> (error + 'b) \<times> log_entry list" where
  "loadDataFromBin parse fetched defaultData =
     (case loadDataFromBin_try parse fetched defaultData of
        Inl e \<Rightarrow> (Inr defaultData, [ConsoleError ''Error loading from jsonbin.io:'' e])
      | Inr data \<Rightarrow> (Inr data, []))"

section \<open>Presentation components: the calendar marker and the day grid\<close>

text \<open>
  \<^verbatim>\<open>Calendar\<close>: \<^verbatim>\<open>dayData && Object.values(dayData).some(d => d && (d.value != null ||
  d.medications?.length > 0 || d.comments))\<close>, at the declared types.
\<close>

definition hasData :: "HealthData \<Rightarrow> string \<Rightarrow> bool" where
  "hasData hdata dayFormatted =
     (case obj_get hdata dayFormatted of
        None \<Rightarrow> False
      | Some dayData \<Rightarrow>
          list_ex (\<lambda>d. slot_value d \<noteq> None \<or> length (slot_medications d) > 0 \<or> slot_comments d \<noteq> [])
            (obj_values dayData))"

text \<open>
  \<^verbatim>\<open>Array.from(new Set(xs))\<close>: a \<^verbatim>\<open>Set\<close> keeps the first insertion of each element.
\<close>

definition set_add :: "'a list \<Rightarrow> 'a \<Rightarrow> 'a list" where
  "set_add elems x = (if x \<in> set elems then elems else elems @ [x])"

definition array_from_set :: "'a list \<Rightarrow> 'a list" where
  "array_from_set xs = foldl set_add [] xs"

text \<open>
  \<^verbatim>\<open>DataInputForm.applyStandardPattern\<close>, the update of \<^verbatim>\<open>dailyData\<close>:
  \<open>applyStandardPattern_each\<close> is the callback of \<^verbatim>\<open>forEach\<close>. Inside the loop
  \<open>time\<close> is a key of the pattern, so \<^verbatim>\<open>standardPattern[time]\<close> is defined; a slot object
  is truthy, so \<^verbatim>\<open>if (newData[time])\<close> asks whether the grid has the key.
\<close>

definition pattern_at :: "StandardPattern \<Rightarrow> string \<Rightarrow> string list" where
  "pattern_at pattern time = (case obj_get pattern time of None \<Rightarrow> [] | Some meds \<Rightarrow> meds)"

definition applyStandardPattern_each :: "StandardPattern \<Rightarrow> DailyData \<Rightarrow> string \<Rightarrow> DailyData" where
  "applyStandardPattern_each pattern newData time =
     (case obj_get newData time of
        None \<Rightarrow> newData
      | Some slot \<Rightarrow>
          obj_set newData time
            (slot\<lparr>slot_medications :=
               array_from_set (slot_medications slot @ pattern_at pattern time)\<rparr>))"

definition applyStandardPattern :: "StandardPattern \<Rightarrow> DailyData \<Rightarrow> DailyData" where
  "applyStandardPattern pattern prev =
     foldl (applyStandardPattern_each pattern) prev (obj_keys pattern)"

section \<open>Well-formed stores\<close>

text \<open>
  Every object of the store has each key once, as a JavaScript object does. \<open>occurs m s\<close>
  says that the name \<open>m\<close> is used somewhere in the store: in the catalog, in a slot of a day
  record or in a slot of the standard pattern.
\<close>

definition wf_store :: "app_store \<Rightarrow> bool" where
  "wf_store s =
     (wf_obj (healthData s) \<and> list_all wf_obj (obj_values (healthData s)) \<and>
      wf_obj (standardPattern s))"

definition occurs :: "string \<Rightarrow> app_store \<Rightarrow> bool" where
  "occurs m s =
     (m \<in> set (medications s) \<or>
      list_ex (\<lambda>daily. list_ex (\<lambda>slot. m \<in> set (slot_medications slot)) (obj_values daily))
        (obj_values (healthData s)) \<or>
      list_ex (\<lambda>meds. m \<in> set meds) (obj_values (standardPattern s)))"

section \<open>Example stores\<close>

text \<open>
  A store with one recorded day, two medications and a pattern of two slots, used to run
  the theorems on.
\<close>

definition example_store :: app_store where
  "example_store =
     \<lparr>healthData =
        [(''2024-06-01'',
          [(''08:00'', \<lparr>slot_value = Some 7, slot_medications = [''A'', ''B''],
                        slot_comments = ''headache''\<rparr>)])],
      medications = [''A'', ''B''],
      standardPattern = [(''08:00'', [''A'']), (''20:00'', [''A'', ''B''])],
      isAuthenticated = True, clock = 0, saveDataTimeout = None\<rparr>"

text \<open>
  A store whose day record names a medication the catalog does not list, a store whose
  catalog is not sorted, and the store reached by importing a bundle whose catalog is
  neither sorted nor free of duplicates. Files with such contents pass the check of
  \<^verbatim>\<open>loadUserDataBundle\<close>, which looks at the three fields only.
\<close>

definition unlisted_store :: app_store where
  "unlisted_store =
     \<lparr>healthData =
        [(''2024-06-01'',
          [(''08:00'', \<lparr>slot_value = None, slot_medications = [''C''], slot_comments = []\<rparr>)])],
      medications = [''A''],
      standardPattern = [],
      isAuthenticated = True, clock = 0, saveDataTimeout = None\<rparr>"

definition unsorted_store :: app_store where
  "unsorted_store =
     \<lparr>healthData = [], medications = [''B'', ''A''], standardPattern = [],
      isAuthenticated = True, clock = 0, saveDataTimeout = None\<rparr>"

definition imported_store :: app_store where
  "imported_store =
     fst (step (Call 0 (LoadUserDataBundle
        \<lparr>bundle_healthData = [], bundle_medications = [''B'', ''A'', ''A''],
         bundle_standardPattern = []\<rparr>)) (initial_store True))"

text \<open>
  Two parsed files: one holds the three fields with \<^verbatim>\<open>null\<close> for the archive; the other
  holds them with values of the wrong kind, none of them an object of the expected shape.
\<close>

definition null_field_bundle :: json where
  "null_field_bundle =
     JObject [(''healthData'', JNull), (''medications'', JArray []),
              (''standardPattern'', JObject [])]"

definition shallow_bundle :: json where
  "shallow_bundle =
     JObject [(''healthData'', JNumber 1), (''medications'', JString ''none''),
              (''standardPattern'', JArray [JNull])]"

declare toString.simps [simp del]
declare TIME_SLOTS_loop.simps [simp del]

section \<open>Results\<close>

subsection \<open>The time-slot labels\<close>

lemma TIME_SLOTS_value:
  "TIME_SLOTS =
    [''08:00'', ''08:30'', ''09:00'', ''09:30'', ''10:00'', ''10:30'', ''11:00'', ''11:30'',
     ''12:00'', ''12:30'', ''13:00'', ''13:30'', ''14:00'', ''14:30'', ''15:00'', ''15:30'',
     ''16:00'', ''16:30'', ''17:00'', ''17:30'', ''18:00'', ''18:30'', ''19:00'', ''19:30'',
     ''20:00'', ''20:30'', ''21:00'', ''21:30'', ''22:00'', ''22:30'', ''23:00'']"
  by code_simp

text \<open>
  C1, as the spec has it (32 labels, the last one 23:30), fails: the guard \<^verbatim>\<open>if (h < 23)\<close>
  leaves the half hour of 23 out.
\<close>

theorem TIME_SLOTS_not_32_labels:
  "length TIME_SLOTS \<noteq> 32 \<and> last TIME_SLOTS \<noteq> ''23:30'' \<and> ''23:30'' \<notin> set TIME_SLOTS"
  unfolding TIME_SLOTS_value by simp

text \<open>
  C1, amended: the labels are the 31 half-hour steps from 08:00 to 23:00 inclusive, in
  order; the first is 08:00 and the last 23:00.
\<close>

theorem TIME_SLOTS_half_hours:
  "TIME_SLOTS = map half_hour_label [0..<31] \<and> length TIME_SLOTS = 31 \<and>
   hd TIME_SLOTS = ''08:00'' \<and> last TIME_SLOTS = ''23:00''"
proof -
  have "map half_hour_label [0..<31] = TIME_SLOTS"
    unfolding TIME_SLOTS_value by code_simp
  then show ?thesis
    unfolding TIME_SLOTS_value by simp
qed

subsection \<open>Objects: reading, writing, rebuilding\<close>

lemma obj_get_obj_set: "obj_get (obj_set ob k v) k' = (if k' = k then Some v else obj_get ob k')"
  by (induction ob) (auto simp: obj_get_def)

lemma obj_keys_obj_set:
  "obj_keys (obj_set ob k v) = (if k \<in> set (obj_keys ob) then obj_keys ob else obj_keys ob @ [k])"
  by (induction ob) (force simp: obj_keys_def)+

lemma obj_set_fresh: "k \<notin> set (obj_keys ob) \<Longrightarrow> obj_set ob k v = ob @ [(k, v)]"
  by (induction ob) (auto simp: obj_keys_def)

lemma rebuild_acc:
  "distinct (obj_keys acc @ obj_keys ob) \<Longrightarrow>
   foldl (\<lambda>acc (k, v). obj_set acc k (f v)) acc ob = acc @ map (\<lambda>(k, v). (k, f v)) ob"
proof (induction ob arbitrary: acc)
  case Nil
  then show ?case by simp
next
  case (Cons kv ob)
  obtain k v where kv: "kv = (k, v)" by (cases kv)
  from Cons.prems have fresh: "k \<notin> set (obj_keys acc)" by (auto simp: kv obj_keys_def)
  have "distinct (obj_keys (acc @ [(k, f v)]) @ obj_keys ob)"
    using Cons.prems by (auto simp: kv obj_keys_def)
  from Cons.IH [OF this] show ?case by (simp add: kv obj_set_fresh [OF fresh])
qed

lemma obj_rebuild_wf: "wf_obj ob \<Longrightarrow> obj_rebuild f ob = map (\<lambda>(k, v). (k, f v)) ob"
  using rebuild_acc [of "[]" ob f] by (simp add: obj_rebuild_def wf_obj_def obj_keys_def)

lemma obj_get_in_values: "obj_get ob k = Some v \<Longrightarrow> v \<in> set (obj_values ob)"
  by (auto simp: obj_get_def obj_values_def dest!: map_of_SomeD intro: rev_image_eqI)

lemma wf_obj_get_iff: "wf_obj ob \<Longrightarrow> obj_get ob k = Some v \<longleftrightarrow> (k, v) \<in> set ob"
  by (simp add: wf_obj_def obj_keys_def obj_get_def)

lemma wf_values_iff:
  "wf_obj ob \<Longrightarrow> v \<in> set (obj_values ob) \<longleftrightarrow> (\<exists>k. obj_get ob k = Some v)"
  by (auto simp: wf_obj_get_iff obj_values_def intro: rev_image_eqI)

lemma list_ex_values:
  "wf_obj ob \<Longrightarrow> list_ex P (obj_values ob) \<longleftrightarrow> (\<exists>k v. obj_get ob k = Some v \<and> P v)"
  by (simp add: list_ex_iff Bex_def wf_values_iff) blast

subsection \<open>Scheduling a save touches the timeout only\<close>

lemma healthData_saveDataToJsonbin [simp]: "healthData (saveDataToJsonbin s) = healthData s"
  and medications_saveDataToJsonbin [simp]: "medications (saveDataToJsonbin s) = medications s"
  and standardPattern_saveDataToJsonbin [simp]:
    "standardPattern (saveDataToJsonbin s) = standardPattern s"
  and isAuthenticated_saveDataToJsonbin [simp]:
    "isAuthenticated (saveDataToJsonbin s) = isAuthenticated s"
  and clock_saveDataToJsonbin [simp]: "clock (saveDataToJsonbin s) = clock s"
  and saveDataTimeout_saveDataToJsonbin [simp]:
    "saveDataTimeout (saveDataToJsonbin s) = Some (clock s + 2000)"
  by (simp_all add: saveDataToJsonbin_def)

subsection \<open>Recording a day\<close>

text \<open>
  C2: after \<open>updateHealthData d r\<close> the archive holds exactly \<open>r\<close> under \<open>d\<close>, and the
  calendar's marker for \<open>d\<close> is set if and only if some slot of \<open>r\<close> has a value, a
  medication or a comment. This holds for every key \<open>d\<close> and every day record \<open>r\<close> (an
  object: no label twice), whatever the store was.
\<close>

theorem updateHealthData_read_back:
  assumes "wf_obj r"
  shows "obj_get (healthData (updateHealthData d r s)) d = Some r \<and>
    (hasData (healthData (updateHealthData d r s)) d \<longleftrightarrow>
      (\<exists>time slot. obj_get r time = Some slot \<and>
         (slot_value slot \<noteq> None \<or> slot_medications slot \<noteq> [] \<or> slot_comments slot \<noteq> [])))"
  using assms by (simp add: updateHealthData_def obj_get_obj_set hasData_def list_ex_values)

theorem updateHealthData_read_back_witness:
  "wf_obj [(''08:00'', \<lparr>slot_value = Some 7, slot_medications = [''Medicina A''],
                       slot_comments = ''headache''\<rparr>)] \<and>
   obj_get (healthData (updateHealthData ''2024-06-01''
      [(''08:00'', \<lparr>slot_value = Some 7, slot_medications = [''Medicina A''],
                   slot_comments = ''headache''\<rparr>)]
      (initial_store True))) ''2024-06-01''
    = Some [(''08:00'', \<lparr>slot_value = Some 7, slot_medications = [''Medicina A''],
                         slot_comments = ''headache''\<rparr>)] \<and>
   hasData (healthData (updateHealthData ''2024-06-01''
      [(''08:00'', \<lparr>slot_value = Some 7, slot_medications = [''Medicina A''],
                   slot_comments = ''headache''\<rparr>)]
      (initial_store True))) ''2024-06-01''"
proof -
  let ?r = "[(''08:00'', \<lparr>slot_value = Some 7, slot_medications = [''Medicina A''],
                         slot_comments = ''headache''\<rparr>)]"
  have wf: "wf_obj ?r" by (simp add: wf_obj_def obj_keys_def)
  have ex: "\<exists>time slot. obj_get ?r time = Some slot \<and>
         (slot_value slot \<noteq> None \<or> slot_medications slot \<noteq> [] \<or> slot_comments slot \<noteq> [])"
    by (rule exI [of _ "''08:00''"]) (simp add: obj_get_def)
  from updateHealthData_read_back [OF wf, of "''2024-06-01''" "initial_store True"] ex wf
  show ?thesis by blast
qed

subsection \<open>Applying the standard pattern\<close>

lemma set_foldl_set_add: "set (foldl set_add acc xs) = set acc \<union> set xs"
  by (induction xs arbitrary: acc) (auto simp: set_add_def)

lemma distinct_foldl_set_add: "distinct acc \<Longrightarrow> distinct (foldl set_add acc xs)"
  by (induction xs arbitrary: acc) (auto simp: set_add_def)

lemma set_array_from_set [simp]: "set (array_from_set xs) = set xs"
  by (simp add: array_from_set_def set_foldl_set_add)

lemma distinct_array_from_set [simp]: "distinct (array_from_set xs)"
  by (simp add: array_from_set_def distinct_foldl_set_add)

lemma obj_get_Some_key: "obj_get ob k = Some v \<Longrightarrow> k \<in> set (obj_keys ob)"
  by (auto simp: obj_get_def obj_keys_def dest!: map_of_SomeD intro: rev_image_eqI)

lemma obj_get_None_iff: "obj_get ob k = None \<longleftrightarrow> k \<notin> set (obj_keys ob)"
  by (simp add: obj_get_def obj_keys_def map_of_eq_None_iff)

lemma obj_keys_each: "obj_keys (applyStandardPattern_each pattern d k) = obj_keys d"
  by (cases "obj_get d k")
    (simp_all add: applyStandardPattern_each_def obj_keys_obj_set obj_get_Some_key)

lemma obj_keys_foldl_each:
  "obj_keys (foldl (applyStandardPattern_each pattern) d ks) = obj_keys d"
  by (induction ks arbitrary: d) (simp_all add: obj_keys_each)







text \<open>
  C10: a label \<open>t\<close> that is not a key of the grid is not one afterwards either, in
  particular when \<open>t\<close> is a key of the pattern: the grid reads as before at \<open>t\<close> (nothing
  there), and the action creates no slot at all, the grid keeping exactly its keys.
\<close>

theorem applyStandardPattern_ignores_missing_slot:
  assumes "t \<notin> set (obj_keys prev)"
  shows "obj_get (applyStandardPattern pattern prev) t = None \<and>
    obj_get (applyStandardPattern pattern prev) t = obj_get prev t \<and>
    obj_keys (applyStandardPattern pattern prev) = obj_keys prev"
proof -
  have keys: "obj_keys (applyStandardPattern pattern prev) = obj_keys prev"
    by (simp add: applyStandardPattern_def obj_keys_foldl_each)
  with assms have "obj_get (applyStandardPattern pattern prev) t = None"
    by (simp add: obj_get_None_iff)
  moreover from assms have "obj_get prev t = None"
    by (simp add: obj_get_None_iff)
  ultimately show ?thesis using keys by simp
qed

theorem applyStandardPattern_ignores_missing_slot_witness:
  "''07:00'' \<in> set (obj_keys [(''07:00'', [''A''])]) \<and>
   ''07:00'' \<notin> set (obj_keys
      [(''08:00'', \<lparr>slot_value = None, slot_medications = [], slot_comments = []\<rparr>)]) \<and>
   obj_get (applyStandardPattern [(''07:00'', [''A''])]
      [(''08:00'', \<lparr>slot_value = None, slot_medications = [], slot_comments = []\<rparr>)]) ''07:00''
     = None \<and>
   obj_keys (applyStandardPattern [(''07:00'', [''A''])]
      [(''08:00'', \<lparr>slot_value = None, slot_medications = [], slot_comments = []\<rparr>)]) = [''08:00'']"
proof -
  let ?prev = "[(''08:00'', \<lparr>slot_value = None, slot_medications = [], slot_comments = []\<rparr>)]"
  have h: "''07:00'' \<notin> set (obj_keys ?prev)" by (simp add: obj_keys_def)
  from applyStandardPattern_ignores_missing_slot [OF h, of "[(''07:00'', [''A''])]"] h
  show ?thesis by (simp add: obj_keys_def)
qed

subsection \<open>Deleting a medication\<close>

lemma obj_get_rebuild: "wf_obj ob \<Longrightarrow> obj_get (obj_rebuild f ob) k = map_option f (obj_get ob k)"
  by (simp add: obj_rebuild_wf obj_get_def map_of_map)

lemma obj_keys_rebuild: "wf_obj ob \<Longrightarrow> obj_keys (obj_rebuild f ob) = obj_keys ob"
  by (simp add: obj_rebuild_wf obj_keys_def case_prod_unfold)

lemma obj_values_obj_set: "set (obj_values (obj_set ob k v)) \<subseteq> insert v (set (obj_values ob))"
proof (induction ob)
  case Nil
  then show ?case by (simp add: obj_values_def)
next
  case (Cons kv ob)
  obtain k' v' where kv: "kv = (k', v')" by (cases kv)
  from Cons.IH show ?case by (auto simp: kv obj_values_def)
qed

lemma foldl_rebuild_values:
  "set (obj_values (foldl (\<lambda>acc (k, v). obj_set acc k (f v)) acc ob))
     \<subseteq> set (obj_values acc) \<union> f ` set (obj_values ob)"
proof (induction ob arbitrary: acc)
  case Nil
  then show ?case by simp
next
  case (Cons kv ob)
  obtain k v where kv: "kv = (k, v)" by (cases kv)
  have "set (obj_values (foldl (\<lambda>acc (k, v). obj_set acc k (f v)) (obj_set acc k (f v)) ob))
      \<subseteq> set (obj_values (obj_set acc k (f v))) \<union> f ` set (obj_values ob)"
    by (rule Cons.IH)
  also have "\<dots> \<subseteq> insert (f v) (set (obj_values acc)) \<union> f ` set (obj_values ob)"
    using obj_values_obj_set [of acc k "f v"] by blast
  finally show ?case by (auto simp: kv obj_values_def)
qed

lemma obj_rebuild_values: "set (obj_values (obj_rebuild f ob)) \<subseteq> f ` set (obj_values ob)"
  using foldl_rebuild_values [of f "[]" ob] by (simp add: obj_rebuild_def obj_values_def)

lemma obj_get_rebuild_image:
  "obj_get (obj_rebuild f ob) k = Some w \<Longrightarrow> \<exists>v \<in> set (obj_values ob). w = f v"
  using obj_rebuild_values [of f ob] by (auto dest!: obj_get_in_values)

lemma deleteMedication_pattern_simp:
  "deleteMedication_pattern m acc (k, v) =
     (if filter (\<lambda>x. x \<noteq> m) v = [] then acc else obj_set acc k (filter (\<lambda>x. x \<noteq> m) v))"
  by (simp add: deleteMedication_pattern_def Let_def)

lemma foldl_prune_values:
  "(\<forall>v \<in> set (obj_values acc). v \<noteq> [] \<and> m \<notin> set v) \<Longrightarrow>
   \<forall>v \<in> set (obj_values (foldl (deleteMedication_pattern m) acc ob)). v \<noteq> [] \<and> m \<notin> set v"
proof (induction ob arbitrary: acc)
  case Nil
  then show ?case by simp
next
  case (Cons kv ob)
  obtain k v where kv: "kv = (k, v)" by (cases kv)
  have "\<forall>w \<in> set (obj_values (deleteMedication_pattern m acc (k, v))). w \<noteq> [] \<and> m \<notin> set w"
    using Cons.prems obj_values_obj_set [of acc k "filter (\<lambda>x. x \<noteq> m) v"]
    by (auto simp: deleteMedication_pattern_simp)
  from Cons.IH [OF this] show ?case by (simp add: kv)
qed

lemma foldl_prune_get:
  "distinct (obj_keys ob) \<Longrightarrow>
   obj_get (foldl (deleteMedication_pattern m) acc ob) t =
     (case obj_get ob t of
        None \<Rightarrow> obj_get acc t
      | Some meds \<Rightarrow>
          if filter (\<lambda>x. x \<noteq> m) meds = [] then obj_get acc t
          else Some (filter (\<lambda>x. x \<noteq> m) meds))"
proof (induction ob arbitrary: acc)
  case Nil
  then show ?case by (simp add: obj_get_def)
next
  case (Cons kv ob)
  obtain k v where kv: "kv = (k, v)" by (cases kv)
  from Cons.prems have d: "distinct (obj_keys ob)" and fresh: "obj_get ob k = None"
    by (auto simp: kv obj_keys_def obj_get_def map_of_eq_None_iff)
  have get_cons: "obj_get ((k, v) # ob) t = (if t = k then Some v else obj_get ob t)"
    by (simp add: obj_get_def)
  show ?case
    unfolding kv foldl_Cons Cons.IH [OF d] get_cons
    using fresh by (simp add: deleteMedication_pattern_simp obj_get_obj_set split: option.splits)
qed

text \<open>
  C5: after \<open>deleteMedication m\<close> the catalog is the old catalog with every occurrence of
  \<open>m\<close> taken out and nothing else changed, so \<open>m\<close> is in the catalog no more; \<open>m\<close> is in no
  slot of any day record and in no slot of the standard pattern, and the pattern has no
  slot with an empty medication list. On a well-formed store this is all that is removed:
  the archive keeps exactly its dates, every slot of every day record is still there with
  \<open>m\<close> filtered out of its medications, a slot of the pattern is dropped when its list
  becomes empty and otherwise kept with \<open>m\<close> filtered out, and the pattern gets no slot it
  did not have.
\<close>

theorem deleteMedication_removes_everywhere:
  "medications (deleteMedication m s) = filter (\<lambda>x. x \<noteq> m) (medications s) \<and>
   m \<notin> set (medications (deleteMedication m s)) \<and>
   (\<forall>date daily time slot.
      obj_get (healthData (deleteMedication m s)) date = Some daily \<longrightarrow>
      obj_get daily time = Some slot \<longrightarrow> m \<notin> set (slot_medications slot)) \<and>
   (\<forall>time meds.
      obj_get (standardPattern (deleteMedication m s)) time = Some meds \<longrightarrow>
      m \<notin> set meds \<and> meds \<noteq> []) \<and>
   (wf_store s \<longrightarrow>
      (\<forall>date daily time slot.
         obj_get (healthData s) date = Some daily \<longrightarrow> obj_get daily time = Some slot \<longrightarrow>
         (\<exists>daily'. obj_get (healthData (deleteMedication m s)) date = Some daily' \<and>
            obj_get daily' time =
              Some (slot\<lparr>slot_medications := filter (\<lambda>x. x \<noteq> m) (slot_medications slot)\<rparr>))) \<and>
      (\<forall>time meds.
         obj_get (standardPattern s) time = Some meds \<longrightarrow>
         obj_get (standardPattern (deleteMedication m s)) time =
           (if filter (\<lambda>x. x \<noteq> m) meds = [] then None else Some (filter (\<lambda>x. x \<noteq> m) meds))) \<and>
      obj_keys (healthData (deleteMedication m s)) = obj_keys (healthData s) \<and>
      (\<forall>time.
         obj_get (standardPattern s) time = None \<longrightarrow>
         obj_get (standardPattern (deleteMedication m s)) time = None))"
proof -
  let ?g = "\<lambda>slot. slot\<lparr>slot_medications := filter (\<lambda>x. x \<noteq> m) (slot_medications slot)\<rparr>"
  let ?s' = "deleteMedication m s"
  have catalog_eq: "medications ?s' = filter (\<lambda>x. x \<noteq> m) (medications s)"
    by (simp add: deleteMedication_def)
  have catalog: "m \<notin> set (medications ?s')"
    by (simp add: deleteMedication_def)
  have dates_kept: "obj_keys (healthData ?s') = obj_keys (healthData s)" if wf: "wf_store s"
    using wf by (simp add: deleteMedication_def wf_store_def obj_keys_rebuild)
  have pattern_no_new: "obj_get (standardPattern ?s') time = None"
    if wf: "wf_store s" and a: "obj_get (standardPattern s) time = None" for time
  proof -
    from wf have "distinct (obj_keys (standardPattern s))"
      by (simp add: wf_store_def wf_obj_def)
    from foldl_prune_get [OF this, of m "[]" time] a show ?thesis
      by (simp add: deleteMedication_def obj_get_def)
  qed
  have days: "m \<notin> set (slot_medications slot)"
    if a: "obj_get (healthData ?s') date = Some daily" and b: "obj_get daily time = Some slot"
    for date daily time slot
  proof -
    from a obtain daily0 where "daily = obj_rebuild ?g daily0"
      by (auto simp: deleteMedication_def dest!: obj_get_rebuild_image)
    with b obtain slot0 where "slot = ?g slot0"
      by (auto dest!: obj_get_rebuild_image)
    then show ?thesis by simp
  qed
  have pattern: "m \<notin> set meds \<and> meds \<noteq> []"
    if a: "obj_get (standardPattern ?s') time = Some meds" for time meds
  proof -
    from a have "meds \<in> set (obj_values (standardPattern ?s'))"
      by (rule obj_get_in_values)
    moreover have "\<forall>v \<in> set (obj_values (standardPattern ?s')). v \<noteq> [] \<and> m \<notin> set v"
      using foldl_prune_values [of "[]" m "standardPattern s"]
      by (simp add: deleteMedication_def obj_values_def)
    ultimately show ?thesis by blast
  qed
  have days_kept: "\<exists>daily'. obj_get (healthData ?s') date = Some daily' \<and>
      obj_get daily' time = Some (?g slot)"
    if wf: "wf_store s" and a: "obj_get (healthData s) date = Some daily"
      and b: "obj_get daily time = Some slot" for date daily time slot
  proof -
    from wf a have wfd: "wf_obj daily"
      by (auto simp: wf_store_def list_all_iff dest: obj_get_in_values)
    from wf a have "obj_get (healthData ?s') date = Some (obj_rebuild ?g daily)"
      by (simp add: deleteMedication_def wf_store_def obj_get_rebuild)
    moreover from wfd b have "obj_get (obj_rebuild ?g daily) time = Some (?g slot)"
      by (simp add: obj_get_rebuild)
    ultimately show ?thesis by blast
  qed
  have pattern_kept: "obj_get (standardPattern ?s') time =
      (if filter (\<lambda>x. x \<noteq> m) meds = [] then None else Some (filter (\<lambda>x. x \<noteq> m) meds))"
    if wf: "wf_store s" and a: "obj_get (standardPattern s) time = Some meds" for time meds
  proof -
    from wf have "distinct (obj_keys (standardPattern s))"
      by (simp add: wf_store_def wf_obj_def)
    from foldl_prune_get [OF this, of m "[]" time] a show ?thesis
      by (simp add: deleteMedication_def obj_get_def)
  qed
  from catalog_eq catalog days pattern days_kept pattern_kept dates_kept pattern_no_new
  show ?thesis by blast
qed

theorem deleteMedication_removes_everywhere_witness:
  "wf_store example_store \<and>
   obj_get (healthData example_store) ''2024-06-01''
     = Some [(''08:00'', \<lparr>slot_value = Some 7, slot_medications = [''A'', ''B''],
                           slot_comments = ''headache''\<rparr>)] \<and>
   obj_get (standardPattern example_store) ''08:00'' = Some [''A''] \<and>
   obj_get (standardPattern example_store) ''20:00'' = Some [''A'', ''B''] \<and>
   obj_get (standardPattern example_store) ''09:00'' = None \<and>
   medications (deleteMedication ''A'' example_store) = [''B''] \<and>
   ''A'' \<notin> set (medications (deleteMedication ''A'' example_store)) \<and>
   obj_keys (healthData (deleteMedication ''A'' example_store)) = [''2024-06-01''] \<and>
   obj_get (standardPattern (deleteMedication ''A'' example_store)) ''09:00'' = None \<and>
   (\<exists>daily'. obj_get (healthData (deleteMedication ''A'' example_store)) ''2024-06-01''
        = Some daily' \<and>
      obj_get daily' ''08:00''
        = Some \<lparr>slot_value = Some 7, slot_medications = [''B''], slot_comments = ''headache''\<rparr>) \<and>
   obj_get (standardPattern (deleteMedication ''A'' example_store)) ''08:00'' = None \<and>
   obj_get (standardPattern (deleteMedication ''A'' example_store)) ''20:00'' = Some [''B'']"
proof -
  let ?slot = "\<lparr>slot_value = Some 7, slot_medications = [''A'', ''B''],
                slot_comments = ''headache''\<rparr>"
  have wf: "wf_store example_store"
    by (simp add: example_store_def wf_store_def wf_obj_def obj_keys_def obj_values_def)
  have day: "obj_get (healthData example_store) ''2024-06-01'' = Some [(''08:00'', ?slot)]"
    by (simp add: example_store_def obj_get_def)
  have slot: "obj_get [(''08:00'', ?slot)] ''08:00'' = Some ?slot"
    by (simp add: obj_get_def)
  have p1: "obj_get (standardPattern example_store) ''08:00'' = Some [''A'']"
    and p2: "obj_get (standardPattern example_store) ''20:00'' = Some [''A'', ''B'']"
    by (simp_all add: example_store_def obj_get_def)
  have p3: "obj_get (standardPattern example_store) ''09:00'' = None"
    by (simp add: example_store_def obj_get_def)
  note inst = deleteMedication_removes_everywhere [of "''A''" example_store]
  from inst have "''A'' \<notin> set (medications (deleteMedication ''A'' example_store))"
    by blast
  moreover from inst
  have "medications (deleteMedication ''A'' example_store)
      = filter (\<lambda>x. x \<noteq> ''A'') (medications example_store)"
    by blast
  then have "medications (deleteMedication ''A'' example_store) = [''B'']"
    by (simp add: example_store_def)
  moreover from inst wf
  have "obj_keys (healthData (deleteMedication ''A'' example_store))
      = obj_keys (healthData example_store)"
    by blast
  then have "obj_keys (healthData (deleteMedication ''A'' example_store)) = [''2024-06-01'']"
    by (simp add: example_store_def obj_keys_def)
  moreover from inst wf p3
  have "obj_get (standardPattern (deleteMedication ''A'' example_store)) ''09:00'' = None"
    by blast
  moreover from inst wf day slot
  have "\<exists>daily'. obj_get (healthData (deleteMedication ''A'' example_store)) ''2024-06-01''
        = Some daily' \<and>
      obj_get daily' ''08:00''
        = Some (?slot\<lparr>slot_medications := filter (\<lambda>x. x \<noteq> ''A'') (slot_medications ?slot)\<rparr>)"
    by blast
  moreover from inst wf p1
  have "obj_get (standardPattern (deleteMedication ''A'' example_store)) ''08:00'' =
      (if filter (\<lambda>x. x \<noteq> ''A'') [''A''] = [] then None
       else Some (filter (\<lambda>x. x \<noteq> ''A'') [''A'']))"
    by blast
  moreover from inst wf p2
  have "obj_get (standardPattern (deleteMedication ''A'' example_store)) ''20:00'' =
      (if filter (\<lambda>x. x \<noteq> ''A'') [''A'', ''B''] = [] then None
       else Some (filter (\<lambda>x. x \<noteq> ''A'') [''A'', ''B'']))"
    by blast
  ultimately show ?thesis using wf day p1 p2 p3 by simp
qed

subsection \<open>Renaming a medication\<close>

lemma rename_back: "b \<notin> set xs \<Longrightarrow> map (rename b a) (map (rename a b) xs) = xs"
  by (induction xs) (auto simp: rename_def)

lemma sort_rename_back:
  assumes "sorted xs" "b \<notin> set xs"
  shows "sort (map (rename b a) (sort (map (rename a b) xs))) = xs"
proof (rule properties_for_sort)
  have "mset (map (rename b a) (sort (map (rename a b) xs)))
      = mset (map (rename b a) (map (rename a b) xs))"
    by (simp only: mset_map mset_sort)
  also have "\<dots> = mset xs"
    using assms(2) by (simp add: rename_back del: map_map)
  finally show "mset xs = mset (map (rename b a) (sort (map (rename a b) xs)))"
    by simp
  show "sorted xs" by fact
qed

lemma wf_obj_rebuild: "wf_obj ob \<Longrightarrow> wf_obj (obj_rebuild f ob)"
  by (simp add: wf_obj_def obj_rebuild_wf [unfolded wf_obj_def] obj_keys_def case_prod_unfold
      comp_def)

lemma obj_rebuild_back:
  assumes "wf_obj ob" "\<forall>v \<in> set (obj_values ob). f2 (f1 v) = v"
  shows "obj_rebuild f2 (obj_rebuild f1 ob) = ob"
proof -
  have r1: "obj_rebuild f1 ob = map (\<lambda>(k, v). (k, f1 v)) ob"
    using assms(1) by (rule obj_rebuild_wf)
  have "wf_obj (obj_rebuild f1 ob)"
    using assms(1) by (rule wf_obj_rebuild)
  then have "obj_rebuild f2 (obj_rebuild f1 ob) = map (\<lambda>(k, v). (k, f2 v)) (obj_rebuild f1 ob)"
    by (rule obj_rebuild_wf)
  also have "\<dots> = map (\<lambda>(k, v). (k, f2 (f1 v))) ob"
    unfolding r1 by (simp add: case_prod_unfold comp_def)
  also have "\<dots> = ob"
    using assms(2) by (intro map_idI) (auto simp: obj_values_def)
  finally show ?thesis .
qed

text \<open>
  C3, as the spec has it, fails. Renaming \<open>A\<close> to \<open>C\<close> and back, with \<open>C\<close> not in the
  catalog: in \<open>unlisted_store\<close> a slot of a day record names \<open>C\<close>, which comes back as
  \<open>A\<close>; in \<open>unsorted_store\<close> no name collides with anything, and the catalog
  comes back sorted, which it was not.
\<close>

theorem editMedication_round_trip_fails:
  "''A'' \<noteq> ''C'' \<and> wf_store unlisted_store \<and> sorted (medications unlisted_store) \<and>
   ''C'' \<notin> set (medications unlisted_store) \<and>
   healthData (editMedication ''C'' ''A'' (editMedication ''A'' ''C'' unlisted_store))
     \<noteq> healthData unlisted_store \<and>
   wf_store unsorted_store \<and> \<not> occurs ''C'' unsorted_store \<and>
   medications (editMedication ''C'' ''A'' (editMedication ''A'' ''C'' unsorted_store))
     \<noteq> medications unsorted_store"
  by (simp add: unlisted_store_def unsorted_store_def editMedication_def obj_rebuild_def
      rename_def wf_store_def wf_obj_def obj_keys_def obj_values_def occurs_def)

text \<open>
  C3, amended: on a well-formed store whose catalog is sorted, if the name \<open>b\<close> is used
  nowhere in the store (not in the catalog, in no day record, not in the pattern), then
  \<open>editMedication a b\<close> followed by \<open>editMedication b a\<close> restores the catalog, every day
  record and the standard pattern.
\<close>

theorem editMedication_round_trip:
  assumes "wf_store s" "sorted (medications s)" "\<not> occurs b s"
  shows "medications (editMedication b a (editMedication a b s)) = medications s \<and>
    healthData (editMedication b a (editMedication a b s)) = healthData s \<and>
    standardPattern (editMedication b a (editMedication a b s)) = standardPattern s"
proof -
  let ?r1 = "\<lambda>slot. slot\<lparr>slot_medications := map (rename a b) (slot_medications slot)\<rparr>"
  let ?r2 = "\<lambda>slot. slot\<lparr>slot_medications := map (rename b a) (slot_medications slot)\<rparr>"
  from assms(3) have cat: "b \<notin> set (medications s)"
    and days: "\<forall>daily \<in> set (obj_values (healthData s)).
        \<forall>slot \<in> set (obj_values daily). b \<notin> set (slot_medications slot)"
    and pat: "\<forall>meds \<in> set (obj_values (standardPattern s)). b \<notin> set meds"
    by (auto simp: occurs_def list_ex_iff)
  have "medications (editMedication b a (editMedication a b s)) = medications s"
    using assms(2) cat by (simp add: editMedication_def sort_rename_back)
  moreover have "standardPattern (editMedication b a (editMedication a b s)) = standardPattern s"
  proof -
    have "obj_rebuild (map (rename b a)) (obj_rebuild (map (rename a b)) (standardPattern s))
        = standardPattern s"
    proof (rule obj_rebuild_back)
      from assms(1) show "wf_obj (standardPattern s)" by (simp add: wf_store_def)
      from pat show "\<forall>v \<in> set (obj_values (standardPattern s)).
          map (rename b a) (map (rename a b) v) = v"
        by (simp add: rename_back del: map_map)
    qed
    then show ?thesis by (simp add: editMedication_def)
  qed
  moreover have "healthData (editMedication b a (editMedication a b s)) = healthData s"
  proof -
    have "obj_rebuild ?r2 (obj_rebuild ?r1 daily) = daily"
      if "daily \<in> set (obj_values (healthData s))" for daily
    proof (rule obj_rebuild_back)
      from that assms(1) show "wf_obj daily" by (simp add: wf_store_def list_all_iff)
      from that days show "\<forall>slot \<in> set (obj_values daily). ?r2 (?r1 slot) = slot"
        by (simp add: rename_back del: map_map)
    qed
    then have "\<forall>daily \<in> set (obj_values (healthData s)).
        obj_rebuild ?r2 (obj_rebuild ?r1 daily) = daily"
      by blast
    moreover from assms(1) have "wf_obj (healthData s)" by (simp add: wf_store_def)
    ultimately have "obj_rebuild (obj_rebuild ?r2) (obj_rebuild (obj_rebuild ?r1) (healthData s))
        = healthData s"
      by (intro obj_rebuild_back)
    then show ?thesis by (simp add: editMedication_def)
  qed
  ultimately show ?thesis by simp
qed

theorem editMedication_round_trip_witness:
  "wf_store example_store \<and> sorted (medications example_store) \<and>
   \<not> occurs ''C'' example_store \<and>
   medications (editMedication ''A'' ''C'' example_store) = [''B'', ''C''] \<and>
   medications (editMedication ''C'' ''A'' (editMedication ''A'' ''C'' example_store))
     = medications example_store \<and>
   healthData (editMedication ''C'' ''A'' (editMedication ''A'' ''C'' example_store))
     = healthData example_store \<and>
   standardPattern (editMedication ''C'' ''A'' (editMedication ''A'' ''C'' example_store))
     = standardPattern example_store"
proof -
  have wf: "wf_store example_store"
    by (simp add: example_store_def wf_store_def wf_obj_def obj_keys_def obj_values_def)
  have so: "sorted (medications example_store)"
    by (simp add: example_store_def)
  have fresh: "\<not> occurs ''C'' example_store"
    by (simp add: example_store_def occurs_def obj_values_def)
  have "medications (editMedication ''A'' ''C'' example_store) = [''B'', ''C'']"
    by (simp add: example_store_def editMedication_def rename_def)
  with editMedication_round_trip [OF wf so fresh, of "''A''"] wf so fresh show ?thesis by simp
qed

subsection \<open>The catalog: sorted, without duplicates\<close>

text \<open>
  C4, as the spec has it, fails: the catalog of the reachable store \<open>imported_store\<close> is
  neither sorted nor free of duplicates, and after \<open>deleteMedication\<close> it is still neither.
\<close>

theorem catalog_unsorted_after_deleteMedication:
  "reachable imported_store \<and>
   medications (deleteMedication ''C'' imported_store) = [''B'', ''A'', ''A''] \<and>
   \<not> sorted (medications (deleteMedication ''C'' imported_store)) \<and>
   \<not> distinct (medications (deleteMedication ''C'' imported_store))"
proof -
  have "reachable imported_store"
    unfolding imported_store_def by (intro reachable_step reachable_initial)
  moreover have "medications (deleteMedication ''C'' imported_store) = [''B'', ''A'', ''A'']"
    by (simp add: imported_store_def deleteMedication_def install_def)
  ultimately show ?thesis by simp
qed

text \<open>
  C4, amended: the catalog mutations keep the invariant rather than establish it.
  \<open>editMedication\<close> always leaves the catalog sorted; \<open>addMedication\<close> and
  \<open>deleteMedication\<close> leave a sorted catalog sorted; \<open>addMedication\<close> and
  \<open>deleteMedication\<close> leave a catalog without duplicates without duplicates, and so does
  \<open>editMedication a b\<close> when \<open>b\<close> is not in the catalog; \<open>addMedication m\<close> changes nothing
  when \<open>m\<close> is in the catalog.
\<close>

theorem catalog_sorted_distinct_preserved:
  "sorted (medications (editMedication a b s)) \<and>
   (sorted (medications s) \<longrightarrow>
      sorted (medications (addMedication m s)) \<and> sorted (medications (deleteMedication m s))) \<and>
   (distinct (medications s) \<longrightarrow>
      distinct (medications (addMedication m s)) \<and>
      distinct (medications (deleteMedication m s)) \<and>
      (b \<notin> set (medications s) \<longrightarrow> distinct (medications (editMedication a b s)))) \<and>
   (m \<in> set (medications s) \<longrightarrow> addMedication m s = s)"
proof -
  have "distinct (map (rename a b) xs)" if "distinct xs" "b \<notin> set xs" for xs
    using that by (induction xs) (auto simp: rename_def)
  then show ?thesis
    by (auto simp: editMedication_def addMedication_def deleteMedication_def sorted_wrt_filter)
qed

theorem catalog_sorted_distinct_preserved_witness:
  "sorted (medications example_store) \<and> distinct (medications example_store) \<and>
   ''D'' \<notin> set (medications example_store) \<and> ''A'' \<in> set (medications example_store) \<and>
   sorted (medications (editMedication ''A'' ''D'' example_store)) \<and>
   sorted (medications (addMedication ''C'' example_store)) \<and>
   sorted (medications (deleteMedication ''C'' example_store)) \<and>
   distinct (medications (addMedication ''C'' example_store)) \<and>
   distinct (medications (deleteMedication ''C'' example_store)) \<and>
   distinct (medications (editMedication ''A'' ''D'' example_store)) \<and>
   addMedication ''A'' example_store = example_store"
proof -
  have so: "sorted (medications example_store)"
    and di: "distinct (medications example_store)"
    and fresh: "''D'' \<notin> set (medications example_store)"
    and old: "''A'' \<in> set (medications example_store)"
    by (simp_all add: example_store_def)
  from catalog_sorted_distinct_preserved [of "''A''" "''D''" example_store "''C''"]
    catalog_sorted_distinct_preserved [of "''A''" "''D''" example_store "''A''"]
    so di fresh old
  show ?thesis by blast
qed

text \<open>
  What the amended C4 leaves open: \<open>editMedication\<close> to a name the catalog already holds.
  \<open>addMedication\<close> refuses a name that is present; \<open>editMedication\<close> has no such test, and
  from the first render one call gives a catalog with the same name twice.
\<close>

lemma editMedication_to_present_name: "reachable (editMedication ''Medicina A'' ''Medicina B'' (initial_store True)) \<and>
  medications (editMedication ''Medicina A'' ''Medicina B'' (initial_store True)) = [''Medicina B'', ''Medicina B'']"
proof -
  have "editMedication ''Medicina A'' ''Medicina B'' (initial_store True)
     = fst (step (Call 0 (EditMedication ''Medicina A'' ''Medicina B'')) (initial_store True))"
    by (simp add: initial_store_def)
  moreover have "reachable (fst (step (Call 0 (EditMedication ''Medicina A'' ''Medicina B'')) (initial_store True)))"
    by (intro reachable_step reachable_initial)
  ultimately show ?thesis
    by (simp add: editMedication_def initial_store_def defaultMedications_def rename_def)
qed

subsection \<open>Importing a bundle\<close>

lemma js_prop_Some_truthy: "js_prop bundle k = Some v \<Longrightarrow> truthy bundle"
  by (cases "bundle") simp_all

text \<open>
  C6, as the spec has it, fails in its second half: \<open>null_field_bundle\<close> contains the three
  fields and is rejected, the store staying as it was, because the check is on the
  truthiness of the fields, not on their presence.
\<close>

theorem loadUserDataBundle_rejects_null_field:
  "js_prop null_field_bundle ''healthData'' = Some JNull \<and>
   js_prop null_field_bundle ''medications'' = Some (JArray []) \<and>
   js_prop null_field_bundle ''standardPattern'' = Some (JObject []) \<and>
   loadUserDataBundle null_field_bundle (initial_store True)
     = Inl (Error ''Invalid data structure in JSON file.'', initial_store True)"
  by (simp add: null_field_bundle_def loadUserDataBundle_def)

text \<open>
  C6, amended: \<open>loadUserDataBundle\<close> throws, the store unchanged, for every input that lacks
  one of the fields \<^verbatim>\<open>healthData\<close>, \<^verbatim>\<open>medications\<close>, \<^verbatim>\<open>standardPattern\<close>; for an input
  that has all three it installs them and schedules a save exactly when each of the three
  values is truthy (not \<^verbatim>\<open>null\<close>, \<^verbatim>\<open>false\<close>, \<^verbatim>\<open>0\<close> or the empty string), whatever their
  structure, and throws otherwise. Installing sets the three cells to the values given and
  the timeout to 2000 ms from now.
\<close>

theorem loadUserDataBundle_truthy_fields:
  "((js_prop bundle ''healthData'' = None \<or> js_prop bundle ''medications'' = None \<or>
     js_prop bundle ''standardPattern'' = None) \<longrightarrow>
      loadUserDataBundle bundle s = Inl (Error ''Invalid data structure in JSON file.'', s)) \<and>
   (js_prop bundle ''healthData'' = Some h \<and> js_prop bundle ''medications'' = Some m \<and>
    js_prop bundle ''standardPattern'' = Some p \<longrightarrow>
      loadUserDataBundle bundle s =
        (if truthy h \<and> truthy m \<and> truthy p then Inr (install h m p s)
         else Inl (Error ''Invalid data structure in JSON file.'', s))) \<and>
   healthData (install h m p s) = h \<and> medications (install h m p s) = m \<and>
   standardPattern (install h m p s) = p \<and>
   isAuthenticated (install h m p s) = isAuthenticated s \<and>
   saveDataTimeout (install h m p s) = Some (clock s + 2000)"
  by (auto simp: loadUserDataBundle_def install_def saveDataToJsonbin_def
      dest: js_prop_Some_truthy split: option.splits)

theorem loadUserDataBundle_truthy_fields_witness:
  "js_prop shallow_bundle ''healthData'' = Some (JNumber 1) \<and>
   js_prop shallow_bundle ''medications'' = Some (JString ''none'') \<and>
   js_prop shallow_bundle ''standardPattern'' = Some (JArray [JNull]) \<and>
   loadUserDataBundle shallow_bundle (initial_store True)
     = Inr (install (JNumber 1) (JString ''none'') (JArray [JNull]) (initial_store True)) \<and>
   js_prop (JObject [(''healthData'', JObject []), (''medications'', JArray [])])
     ''standardPattern'' = None \<and>
   loadUserDataBundle (JObject [(''healthData'', JObject []), (''medications'', JArray [])])
       (initial_store True)
     = Inl (Error ''Invalid data structure in JSON file.'', initial_store True)"
proof -
  have f: "js_prop shallow_bundle ''healthData'' = Some (JNumber 1)"
    "js_prop shallow_bundle ''medications'' = Some (JString ''none'')"
    "js_prop shallow_bundle ''standardPattern'' = Some (JArray [JNull])"
    by (simp_all add: shallow_bundle_def)
  have g: "js_prop (JObject [(''healthData'', JObject []), (''medications'', JArray [])])
     ''standardPattern'' = None"
    by simp
  from loadUserDataBundle_truthy_fields [of shallow_bundle "initial_store True" "JNumber 1" "JString ''none''" "JArray [JNull]"] f
  have "loadUserDataBundle shallow_bundle (initial_store True)
     = Inr (install (JNumber 1) (JString ''none'') (JArray [JNull]) (initial_store True))"
    by simp
  moreover
  from loadUserDataBundle_truthy_fields [of "JObject [(''healthData'', JObject []), (''medications'', JArray [])]"
      "initial_store True"] g
  have "loadUserDataBundle (JObject [(''healthData'', JObject []), (''medications'', JArray [])])
       (initial_store True)
     = Inl (Error ''Invalid data structure in JSON file.'', initial_store True)"
    by blast
  ultimately show ?thesis using f g by simp
qed

subsection \<open>Loading from the remote store\<close>

text \<open>
  C8, as the spec has it, fails in its second case: on status 500 the error thrown inside
  the \<^verbatim>\<open>try\<close> block is caught by the function's own \<^verbatim>\<open>catch\<close>, which logs it and
  returns the default bundle. The promise is fulfilled, not rejected.
\<close>

theorem loadDataFromBin_status_500_returns_default:
  "\<not> response_ok \<lparr>status = 500, statusText = ''Internal Server Error'', response_text = Inr []\<rparr> \<and>
   loadDataFromBin (\<lambda>responseText. Inl (Error ''SyntaxError''))
      (Inr \<lparr>status = 500, statusText = ''Internal Server Error'', response_text = Inr []\<rparr>)
      defaultUserDataBundle
     = (Inr defaultUserDataBundle,
        [ConsoleError ''Error loading from jsonbin.io:''
           (Error ''Failed to load: Internal Server Error'')])"
  by (simp add: loadDataFromBin_def loadDataFromBin_try_def response_ok_def)

text \<open>
  C8, amended: \<open>loadDataFromBin\<close> never fails. On a transport failure it logs the error and
  returns the default bundle; on status 404 it returns the default bundle and logs nothing;
  on any other status outside 200..299 it logs the error \<^verbatim>\<open>Failed to load: <statusText>\<close>
  and returns the default bundle; and whatever the answer, the outcome is a bundle.
\<close>

theorem loadDataFromBin_never_fails:
  "loadDataFromBin parse (Inl e) defaultData
     = (Inr defaultData, [ConsoleError ''Error loading from jsonbin.io:'' e]) \<and>
   (status r = 404 \<longrightarrow> loadDataFromBin parse (Inr r) defaultData = (Inr defaultData, [])) \<and>
   (\<not> response_ok r \<and> status r \<noteq> 404 \<longrightarrow>
      loadDataFromBin parse (Inr r) defaultData
        = (Inr defaultData,
           [ConsoleError ''Error loading from jsonbin.io:''
              (Error (''Failed to load: '' @ statusText r))])) \<and>
   (\<exists>data. fst (loadDataFromBin parse fetched defaultData) = Inr data)"
  by (auto simp: loadDataFromBin_def loadDataFromBin_try_def response_ok_def
      split: sum.splits)

theorem loadDataFromBin_never_fails_witness:
  "status \<lparr>status = 404, statusText = ''Not Found'', response_text = Inr []\<rparr> = 404 \<and>
   loadDataFromBin (\<lambda>responseText. Inl (Error ''SyntaxError''))
      (Inr \<lparr>status = 404, statusText = ''Not Found'', response_text = Inr []\<rparr>)
      defaultUserDataBundle
     = (Inr defaultUserDataBundle, []) \<and>
   \<not> response_ok
       \<lparr>status = 503, statusText = ''Service Unavailable'', response_text = Inr []\<rparr> \<and>
   status \<lparr>status = 503, statusText = ''Service Unavailable'', response_text = Inr []\<rparr>
     \<noteq> 404 \<and>
   loadDataFromBin (\<lambda>responseText. Inl (Error ''SyntaxError''))
      (Inr \<lparr>status = 503, statusText = ''Service Unavailable'', response_text = Inr []\<rparr>)
      defaultUserDataBundle
     = (Inr defaultUserDataBundle,
        [ConsoleError ''Error loading from jsonbin.io:''
           (Error ''Failed to load: Service Unavailable'')])"
proof -
  let ?parse = "\<lambda>responseText :: string. Inl (Error ''SyntaxError'') :: error + UserDataBundle"
  let ?r404 = "\<lparr>status = 404, statusText = ''Not Found'', response_text = Inr []\<rparr>"
  let ?r503 = "\<lparr>status = 503, statusText = ''Service Unavailable'', response_text = Inr []\<rparr>"
  have a: "status ?r404 = 404" by simp
  have b: "\<not> response_ok ?r503 \<and> status ?r503 \<noteq> 404" by (simp add: response_ok_def)
  from loadDataFromBin_never_fails [of ?parse _ defaultUserDataBundle ?r404] a
  have "loadDataFromBin ?parse (Inr ?r404) defaultUserDataBundle = (Inr defaultUserDataBundle, [])"
    by blast
  moreover
  from loadDataFromBin_never_fails [of ?parse _ defaultUserDataBundle ?r503] b
  have "loadDataFromBin ?parse (Inr ?r503) defaultUserDataBundle
     = (Inr defaultUserDataBundle,
        [ConsoleError ''Error loading from jsonbin.io:''
           (Error (''Failed to load: '' @ statusText ?r503))])"
    by blast
  ultimately show ?thesis using a b by simp
qed

subsection \<open>The debounced save\<close>

lemma isAuthenticated_mutate [simp]: "isAuthenticated (mutate m s) = isAuthenticated s"
  by (cases m)
    (simp_all add: updateHealthData_def addMedication_def editMedication_def
      deleteMedication_def updateStandardPattern_def install_def)

lemma clock_mutate [simp]: "clock (mutate m s) = clock s"
  by (cases m)
    (simp_all add: updateHealthData_def addMedication_def editMedication_def
      deleteMedication_def updateStandardPattern_def install_def)


lemma mutate_without_save: "\<not> schedules_save m s \<Longrightarrow> mutate m s = s"
  by (cases m) (simp_all add: addMedication_def)

lemma schedules_save_clock [simp]: "schedules_save m (s\<lparr>clock := t\<rparr>) = schedules_save m s"
  by (cases m) simp_all

lemma dataBundle_clock [simp]: "dataBundle (s\<lparr>clock := t\<rparr>) = dataBundle s"
  by (simp add: dataBundle_def)








end
